theory Spec2Isabelle
  imports Complex_Main
begin

section \<open>The data model of tailor: \<open>src/tailor/data_model.py\<close>\<close>

text \<open>
  A shallow embedding of the class \<open>DataModel\<close>. Every method takes the state of the
  instance and returns its result together with the state it leaves behind, so that a
  mutation made before an exception is raised is still visible afterwards. Exceptions
  are values of the type \<open>error\<close>.

  Conventions of the embedding:
  \<^item> row and column numbers are natural numbers (Python's negative indices are not
    modelled);
  \<^item> a cell is a float64: either NaN or a number. No arithmetic on cells is modelled,
    cells are only stored, copied and compared;
  \<^item> strings are lists of 8-bit characters; the character classes of the regular
    expression in \<open>normalize_column_name\<close> are modelled on ASCII;
  \<^item> pandas and asteval are libraries outside the repository. The frame operations
    below (\<open>insert\<close>, \<open>drop\<close>, \<open>reindex\<close>, \<open>concat\<close>, \<open>iloc\<close>, \<open>iat\<close>, assignment of a
    column) follow the documented behaviour of pandas on a frame with a RangeIndex;
    the interpreter is a parameter.
\<close>

subsection \<open>Exceptions and results\<close>

datatype error = KeyError | TypeError | AttributeError | IndexError | ValueError

datatype 'a result = Ok 'a | Raise error

subsection \<open>The pandas DataFrame held in \<open>_data\<close>\<close>

datatype cell = NaN | Num real

text \<open>
  A DataFrame is its row index (always a RangeIndex here, so only its length is kept)
  and its columns in display order, each a label with one cell per row.
\<close>

record frame =
  nrows :: nat
  columns :: "(string \<times> cell list) list"

definition empty_frame :: frame where
  "empty_frame = \<lparr>nrows = 0, columns = []\<rparr>"

text \<open>\<open>list(df.columns)\<close>\<close>

definition labels_of :: "frame \<Rightarrow> string list" where
  "labels_of df = map fst (columns df)"

text \<open>\<open>df.columns.get_loc(key)\<close>: the position of a label, KeyError when it is absent.\<close>

fun index_of :: "string list \<Rightarrow> string \<Rightarrow> nat option" where
  "index_of [] key = None"
| "index_of (l # ls) key =
     (if l = key then Some 0 else map_option Suc (index_of ls key))"

definition get_loc :: "frame \<Rightarrow> string \<Rightarrow> nat result" where
  "get_loc df key = (case index_of (labels_of df) key of None \<Rightarrow> Raise KeyError | Some i \<Rightarrow> Ok i)"

text \<open>\<open>df[key]\<close> as a read: the cells of the column with that label.\<close>

definition column_of :: "frame \<Rightarrow> string \<Rightarrow> cell list option" where
  "column_of df key = map_of (columns df) key"

subsection \<open>The state of a \<open>DataModel\<close>\<close>

text \<open>
  The attributes set by \<open>__init__\<close> and the counter \<open>_new_col_num\<close> (a class attribute
  of value 0 that the first \<open>+=\<close> turns into an instance attribute). The dictionary
  \<open>_calculated_column_expression\<close> maps a key to a string or to Python's \<open>None\<close>
  (what \<open>insert_calculated_column\<close> stores), hence the nested option.
\<close>

record DataModel =
  data :: frame
  col_names :: "string \<rightharpoonup> string"
  calculated_column_expression :: "string \<rightharpoonup> string option"
  is_calculated_column_valid :: "string \<rightharpoonup> bool"
  new_col_num :: nat

definition init :: DataModel where
  "init = \<lparr>data = empty_frame, col_names = Map.empty,
            calculated_column_expression = Map.empty,
            is_calculated_column_valid = Map.empty, new_col_num = 0\<rparr>"

definition num_rows :: "DataModel \<Rightarrow> nat" where
  "num_rows m = nrows (data m)"

definition num_columns :: "DataModel \<Rightarrow> nat" where
  "num_columns m = length (columns (data m))"

subsection \<open>Queries on columns\<close>

text \<open>\<open>get_column_label(column)\<close>: \<open>self._data.columns[column]\<close>.\<close>

definition get_column_label :: "DataModel \<Rightarrow> nat \<Rightarrow> string result" where
  "get_column_label m column =
     (if column < num_columns m then Ok (labels_of (data m) ! column) else Raise IndexError)"

text \<open>\<open>get_column_name(label)\<close>: \<open>self._col_names[label]\<close>.\<close>

definition get_column_name :: "DataModel \<Rightarrow> string \<Rightarrow> string result" where
  "get_column_name m label =
     (case col_names m label of None \<Rightarrow> Raise KeyError | Some name \<Rightarrow> Ok name)"

text \<open>
  \<open>get_column_expression(label)\<close>: \<open>self._calculated_column_expression.get(label, None)\<close>.
  The result is \<open>None\<close> for a missing key and for a stored \<open>None\<close>, and the stored
  string otherwise, as it is.
\<close>

definition get_column_expression :: "DataModel \<Rightarrow> string \<Rightarrow> string option" where
  "get_column_expression m label =
     (case calculated_column_expression m label of None \<Rightarrow> None | Some e \<Rightarrow> e)"

text \<open>\<open>is_calculated_column(label)\<close>: \<open>label in self._calculated_column_expression\<close>.\<close>

definition is_calculated_column :: "DataModel \<Rightarrow> string \<Rightarrow> bool" where
  "is_calculated_column m label = (calculated_column_expression m label \<noteq> None)"

text \<open>
  \<open>is_column_valid(label)\<close>: True when the label is not a key of the expressions,
  \<open>self._is_calculated_column_valid[label]\<close> otherwise (KeyError when that dictionary
  has no such key).
\<close>

definition is_column_valid :: "DataModel \<Rightarrow> string \<Rightarrow> bool result" where
  "is_column_valid m label =
     (if \<not> is_calculated_column m label then Ok True
      else (case is_calculated_column_valid m label of
              None \<Rightarrow> Raise KeyError | Some v \<Rightarrow> Ok v))"

subsection \<open>Labels of new columns\<close>

text \<open>Python's \<open>str(n)\<close> for a non-negative integer: its decimal digits.\<close>

fun str_nat :: "nat \<Rightarrow> string" where
  "str_nat n =
     (if n < 10 then [''0123456789'' ! n]
      else str_nat (n div 10) @ [''0123456789'' ! (n mod 10)])"

declare str_nat.simps [simp del]

text \<open>The label \<open>f"col{N}"\<close>.\<close>

definition col_label :: "nat \<Rightarrow> string" where
  "col_label n = ''col'' @ str_nat n"

text \<open>\<open>_create_new_column_label()\<close>: increment the counter, return the label of its new value.\<close>

definition create_new_column_label :: "DataModel \<Rightarrow> string \<times> DataModel" where
  "create_new_column_label m =
     (let m1 = m\<lparr>new_col_num := new_col_num m + 1\<rparr> in (col_label (new_col_num m1), m1))"

text \<open>\<open>[self._create_new_column_label() for _ in range(count)]\<close>\<close>

fun create_labels :: "nat \<Rightarrow> DataModel \<Rightarrow> string list \<times> DataModel" where
  "create_labels 0 m = ([], m)"
| "create_labels (Suc count) m =
     (case create_new_column_label m of
        (l, m1) \<Rightarrow> (case create_labels count m1 of (ls, m2) \<Rightarrow> (l # ls, m2)))"

subsection \<open>Structural edits\<close>

text \<open>
  \<open>df.insert(loc, label, value)\<close>: a new column of one value per row at position
  \<open>loc\<close>. pandas raises ValueError when the label is already a column and IndexError
  when \<open>loc\<close> is beyond the number of columns.
\<close>

definition frame_insert :: "frame \<Rightarrow> nat \<Rightarrow> string \<Rightarrow> cell \<Rightarrow> frame result" where
  "frame_insert df loc label v =
     (if label \<in> set (labels_of df) then Raise ValueError
      else if length (columns df) < loc then Raise IndexError
      else Ok (df\<lparr>columns := take loc (columns df) @ [(label, replicate (nrows df) v)]
                                @ drop loc (columns df)\<rparr>))"

text \<open>The loop of \<open>insert_columns\<close> over \<open>zip(range(column, column + count), labels)\<close>.\<close>

fun insert_loop :: "(nat \<times> string) list \<Rightarrow> DataModel \<Rightarrow> unit result \<times> DataModel" where
  "insert_loop [] m = (Ok (), m)"
| "insert_loop ((idx, label) # rest) m =
     (case frame_insert (data m) idx label NaN of
        Raise e \<Rightarrow> (Raise e, m)
      | Ok df \<Rightarrow> insert_loop rest (m\<lparr>data := df, col_names := (col_names m)(label \<mapsto> label)\<rparr>))"

definition insert_columns :: "DataModel \<Rightarrow> nat \<Rightarrow> nat \<Rightarrow> string list result \<times> DataModel" where
  "insert_columns m column count =
     (case create_labels count m of
        (labels, m1) \<Rightarrow>
          (case insert_loop (zip [column ..< column + count] labels) m1 of
             (Raise e, m2) \<Rightarrow> (Raise e, m2)
           | (Ok _, m2) \<Rightarrow> (Ok labels, m2)))"

text \<open>
  \<open>insert_calculated_column(column)\<close>: one inserted column, whose label gets the
  expression \<open>None\<close> and the validity flag False. The method has no return statement.
  The unpacking \<open>(label,) = ...\<close> raises ValueError on a list of another length.
\<close>

definition insert_calculated_column :: "DataModel \<Rightarrow> nat \<Rightarrow> unit result \<times> DataModel" where
  "insert_calculated_column m column =
     (case insert_columns m column 1 of
        (Raise e, m1) \<Rightarrow> (Raise e, m1)
      | (Ok [label], m1) \<Rightarrow>
          (Ok (), m1\<lparr>calculated_column_expression :=
                        (calculated_column_expression m1)(label \<mapsto> None),
                      is_calculated_column_valid :=
                        (is_calculated_column_valid m1)(label \<mapsto> False)\<rparr>)
      | (Ok _, m1) \<Rightarrow> (Raise ValueError, m1))"

text \<open>
  \<open>recalculate_all_columns()\<close>: the body starts with \<open>return\<close> (under a FIXME), so
  the loop below it never runs.
\<close>

definition recalculate_all_columns :: "DataModel \<Rightarrow> unit result \<times> DataModel" where
  "recalculate_all_columns m = (Ok (), m)"

text \<open>\<open>df.drop(columns=labels)\<close> for labels that are columns of the frame.\<close>

definition frame_drop :: "frame \<Rightarrow> string list \<Rightarrow> frame" where
  "frame_drop df labels = df\<lparr>columns := filter (\<lambda>c. fst c \<notin> set labels) (columns df)\<rparr>"

text \<open>\<open>try: del d[label] except KeyError: pass\<close>, for each label.\<close>

fun del_keys :: "('k \<rightharpoonup> 'v) \<Rightarrow> 'k list \<Rightarrow> ('k \<rightharpoonup> 'v)" where
  "del_keys d [] = d"
| "del_keys d (k # ks) = del_keys (d(k := None)) ks"

text \<open>
  \<open>remove_columns(column, count)\<close>: the labels are the slice
  \<open>columns[column : column + count]\<close>, which is never out of range.
\<close>

definition remove_columns :: "DataModel \<Rightarrow> nat \<Rightarrow> nat \<Rightarrow> unit result \<times> DataModel" where
  "remove_columns m column count =
     (let labels = take count (drop column (labels_of (data m)));
          m1 = m\<lparr>data := frame_drop (data m) labels\<rparr>;
          m2 = m1\<lparr>calculated_column_expression :=
                    del_keys (calculated_column_expression m1) labels\<rparr>
      in recalculate_all_columns m2)"

text \<open>\<open>cols.pop(i)\<close> and \<open>cols.insert(i, x)\<close> on a Python list.\<close>

definition list_pop :: "'a list \<Rightarrow> nat \<Rightarrow> ('a \<times> 'a list) result" where
  "list_pop xs i =
     (if i < length xs then Ok (xs ! i, take i xs @ drop (Suc i) xs) else Raise IndexError)"

definition list_insert :: "'a list \<Rightarrow> nat \<Rightarrow> 'a \<Rightarrow> 'a list" where
  "list_insert xs i x = take i xs @ x # drop i xs"

text \<open>
  \<open>df.reindex(columns=cols)\<close>: the columns in the order of \<open>cols\<close>, a label that is
  no column giving a column of NaN. pandas raises ValueError when the frame's own
  labels are not distinct.
\<close>

definition reindex :: "frame \<Rightarrow> string list \<Rightarrow> frame result" where
  "reindex df cols =
     (if distinct (labels_of df)
      then Ok (df\<lparr>columns :=
                  map (\<lambda>l. (l, case column_of df l of
                                  None \<Rightarrow> replicate (nrows df) NaN | Some xs \<Rightarrow> xs)) cols\<rparr>)
      else Raise ValueError)"

text \<open>\<open>move_column(source, dest)\<close>\<close>

definition move_column :: "DataModel \<Rightarrow> nat \<Rightarrow> nat \<Rightarrow> unit result \<times> DataModel" where
  "move_column m source dest =
     (case list_pop (labels_of (data m)) source of
        Raise e \<Rightarrow> (Raise e, m)
      | Ok (x, cols) \<Rightarrow>
          (case reindex (data m) (list_insert cols dest x) of
             Raise e \<Rightarrow> (Raise e, m)
           | Ok df \<Rightarrow> (Ok (), m\<lparr>data := df\<rparr>)))"

subsection \<open>Names\<close>

text \<open>
  \<open>normalize_column_name(name)\<close>: \<open>re.sub(r"\W|^(?=\d)", "_", name)\<close>. Scanning from
  the left, a character that is not a word character is replaced by an underscore; at
  position 0 the second alternative matches the empty string before a digit, which
  puts an underscore in front of the name. Word characters and digits are those of
  ASCII: on a name with a character beyond ASCII (an accented letter, which Python's
  \<open>\W\<close> keeps) the model is not the code, and nothing below is stated for such names.
\<close>

definition is_digit :: "char \<Rightarrow> bool" where
  "is_digit c = (c \<in> set ''0123456789'')"

definition is_word :: "char \<Rightarrow> bool" where
  "is_word c =
     (c \<in> set ''abcdefghijklmnopqrstuvwxyzABCDEFGHIJKLMNOPQRSTUVWXYZ0123456789_'')"

definition normalize_column_name :: "string \<Rightarrow> string" where
  "normalize_column_name name =
     (case name of [] \<Rightarrow> [] | c # _ \<Rightarrow> (if is_digit c then ''_'' else []))
     @ map (\<lambda>c. if is_word c then c else CHR ''_'') name"

text \<open>
  \<open>rename_column(label, name)\<close>: reads the old name (KeyError for an unknown label),
  stores the normalized name. The method has no return statement: its result is
  Python's \<open>None\<close>.
\<close>

definition rename_column :: "DataModel \<Rightarrow> string \<Rightarrow> string \<Rightarrow> string option result \<times> DataModel" where
  "rename_column m label name =
     (case get_column_name m label of
        Raise e \<Rightarrow> (Raise e, m)
      | Ok old_name \<Rightarrow>
          (let new_name = normalize_column_name name
           in (Ok None, m\<lparr>col_names := (col_names m)(label \<mapsto> new_name)\<rparr>)))"

subsection \<open>Rows and cells\<close>

text \<open>\<open>get_value(row, column)\<close>: \<open>self._data.iat[row, column]\<close>, IndexError out of range.\<close>

definition get_value :: "DataModel \<Rightarrow> nat \<Rightarrow> nat \<Rightarrow> cell result" where
  "get_value m row column =
     (if row < nrows (data m) \<and> column < length (columns (data m))
      then Ok (snd (columns (data m) ! column) ! row) else Raise IndexError)"

text \<open>\<open>set_value(row, column, value)\<close>: \<open>self._data.iat[row, column] = value\<close>.\<close>

definition set_value :: "DataModel \<Rightarrow> nat \<Rightarrow> nat \<Rightarrow> cell \<Rightarrow> unit result \<times> DataModel" where
  "set_value m row column v =
     (let df = data m in
      if row < nrows df \<and> column < length (columns df)
      then (Ok (), m\<lparr>data := df\<lparr>columns :=
              (columns df)[column := (fst (columns df ! column),
                                      (snd (columns df ! column))[row := v])]\<rparr>\<rparr>)
      else (Raise IndexError, m))"

text \<open>
  \<open>insert_rows(row, count)\<close>: \<open>count\<close> rows of NaN between \<open>iloc[:row]\<close> and
  \<open>iloc[row:]\<close>. The new rows are built from a dictionary with one entry per column,
  so a frame without columns gets no new row.
\<close>

definition insert_rows :: "DataModel \<Rightarrow> nat \<Rightarrow> nat \<Rightarrow> unit result \<times> DataModel" where
  "insert_rows m row count =
     (let df = data m in
      if columns df = [] then (Ok (), m)
      else (Ok (), m\<lparr>data := df\<lparr>nrows := nrows df + count,
              columns := map (\<lambda>c. (fst c, take row (snd c) @ replicate count NaN
                                           @ drop row (snd c))) (columns df)\<rparr>\<rparr>))"

text \<open>
  \<open>remove_rows(row, count)\<close>: \<open>drop(index=range(row, row + count))\<close>, which raises
  KeyError when one of these row numbers is not in the index.
\<close>

definition remove_rows :: "DataModel \<Rightarrow> nat \<Rightarrow> nat \<Rightarrow> unit result \<times> DataModel" where
  "remove_rows m row count =
     (let df = data m in
      if count = 0 then (Ok (), m)
      else if nrows df < row + count then (Raise KeyError, m)
      else (Ok (), m\<lparr>data := df\<lparr>nrows := nrows df - count,
              columns := map (\<lambda>c. (fst c, take row (snd c) @ drop (row + count) (snd c)))
                             (columns df)\<rparr>\<rparr>))"

subsection \<open>Calculated columns\<close>

text \<open>
  The interpreter is asteval, a library outside the repository: it is a parameter of
  the model. \<open>aeval usersyms expression\<close> stands for the whole \<open>try\<close> block of one call
  of \<open>recalculate_column\<close>, the evaluation of the expression with the accessible columns
  as symbols followed by the cast to float64: \<open>None\<close> when any exception is raised
  there, and otherwise the value that reaches the \<open>else\<close> branch, which is a float, a
  pandas Series (on the frame's row index) or a one-dimensional numpy array.

  Every call of \<open>recalculate_column\<close> makes a new \<open>asteval.Interpreter\<close> with the default
  symbol table, and that table holds functions whose result the expression and the
  columns do not determine (\<open>id\<close>, for one). So a value of the type \<open>interpreter\<close>
  describes the evaluation of one call only: two calls, even with the same arguments
  on the same state, may have to be given two different interpreters. A sequence of
  calls carries one interpreter per evaluating call.
\<close>

datatype aeval_output = Scalar cell | Series "cell list" | NdArray "cell list"

type_synonym interpreter = "(string \<rightharpoonup> cell list) \<Rightarrow> string option \<Rightarrow> aeval_output option"

text \<open>
  \<open>self._data[col_name] = output\<close> for a label that is a column of the frame. A float
  is broadcast to every row, a Series is aligned with the row index (missing rows are
  NaN, further rows are dropped), and an array of another length than the index raises
  ValueError.
\<close>

definition set_column :: "frame \<Rightarrow> string \<Rightarrow> aeval_output \<Rightarrow> frame result" where
  "set_column df key out =
     (case (case out of
              Scalar v \<Rightarrow> Ok (replicate (nrows df) v)
            | Series xs \<Rightarrow> Ok (take (nrows df) xs @ replicate (nrows df - length xs) NaN)
            | NdArray xs \<Rightarrow> if length xs = nrows df then Ok xs else Raise ValueError) of
        Raise e \<Rightarrow> Raise e
      | Ok cells \<Rightarrow>
          Ok (df\<lparr>columns := map (\<lambda>c. if fst c = key then (key, cells) else c) (columns df)\<rparr>))"

text \<open>
  A call \<open>self.is_column_valid(kw=arg)\<close> with its argument passed by keyword. The
  method's only parameter is named \<open>label\<close>; Python raises TypeError for any other
  keyword.
\<close>

definition is_column_valid_kw :: "DataModel \<Rightarrow> string \<Rightarrow> string \<Rightarrow> bool result" where
  "is_column_valid_kw m kw arg =
     (if kw = ''label'' then is_column_valid m arg else Raise TypeError)"

text \<open>
  The dictionary comprehension of \<open>_get_accessible_columns\<close>:
  \<open>{k: self._data[k] for k in accessible_columns if self.is_column_valid(col_name=k)}\<close>,
  with the dictionary built so far as accumulator.
\<close>

fun accessible_data ::
  "DataModel \<Rightarrow> string list \<Rightarrow> (string \<rightharpoonup> cell list) \<Rightarrow> (string \<rightharpoonup> cell list) result" where
  "accessible_data m [] acc = Ok acc"
| "accessible_data m (k # ks) acc =
     (case is_column_valid_kw m ''col_name'' k of
        Raise e \<Rightarrow> Raise e
      | Ok v \<Rightarrow> accessible_data m ks (if v then acc(k := column_of (data m) k) else acc))"

text \<open>\<open>_get_accessible_columns(col_name)\<close>\<close>

definition get_accessible_columns :: "DataModel \<Rightarrow> string \<Rightarrow> (string \<rightharpoonup> cell list) result" where
  "get_accessible_columns m col_name =
     (case get_loc (data m) col_name of
        Raise e \<Rightarrow> Raise e
      | Ok idx \<Rightarrow> accessible_data m (take idx (labels_of (data m))) Map.empty)"

text \<open>
  \<open>recalculate_column(col_name, expression=None)\<close>. The lookup of the stored expression
  and \<open>_get_accessible_columns\<close> stand before the \<open>try\<close>, the assignment of the output
  stands in its \<open>else\<close> branch: what they raise is not caught.
\<close>

definition recalculate_column ::
  "interpreter \<Rightarrow> DataModel \<Rightarrow> string \<Rightarrow> string option \<Rightarrow> bool result \<times> DataModel" where
  "recalculate_column aeval m col_name expression =
     (case (case expression of
              None \<Rightarrow> (case calculated_column_expression m col_name of
                          None \<Rightarrow> Raise KeyError | Some stored \<Rightarrow> Ok stored)
            | Some e \<Rightarrow> Ok (Some e)) of
        Raise e \<Rightarrow> (Raise e, m)
      | Ok expression' \<Rightarrow>
          (case get_accessible_columns m col_name of
             Raise e \<Rightarrow> (Raise e, m)
           | Ok objects \<Rightarrow>
               (case aeval objects expression' of
                  None \<Rightarrow>
                    (Ok False, m\<lparr>is_calculated_column_valid :=
                                    (is_calculated_column_valid m)(col_name \<mapsto> False)\<rparr>)
                | Some out \<Rightarrow>
                    (case set_column (data m) col_name out of
                       Raise e \<Rightarrow> (Raise e, m)
                     | Ok df \<Rightarrow>
                         (Ok True, m\<lparr>data := df, is_calculated_column_valid :=
                                       (is_calculated_column_valid m)(col_name \<mapsto> True)\<rparr>)))))"

text \<open>
  The part of \<open>recalculate_column\<close> from the creation of the interpreter on, that is
  its \<open>try\<close> statement with the \<open>except\<close> and \<open>else\<close> branches, given the expression
  and the accessible columns: what re-evaluating a column does once its environment
  is there. \<open>recalculate_column\<close> is this after the two steps that can raise before it
  (lemma \<open>recalculate_column_by_steps\<close>).
\<close>

definition evaluate_and_store ::
  "interpreter \<Rightarrow> DataModel \<Rightarrow> string \<Rightarrow> string option \<Rightarrow> (string \<rightharpoonup> cell list)
     \<Rightarrow> bool result \<times> DataModel" where
  "evaluate_and_store aeval m col_name expression objects =
     (case aeval objects expression of
        None \<Rightarrow>
          (Ok False, m\<lparr>is_calculated_column_valid :=
                          (is_calculated_column_valid m)(col_name \<mapsto> False)\<rparr>)
      | Some out \<Rightarrow>
          (case set_column (data m) col_name out of
             Raise e \<Rightarrow> (Raise e, m)
           | Ok df \<Rightarrow>
               (Ok True, m\<lparr>data := df, is_calculated_column_valid :=
                             (is_calculated_column_valid m)(col_name \<mapsto> True)\<rparr>)))"

text \<open>
  \<open>self.show_status(...)\<close>, \<open>self.beginResetModel()\<close> and \<open>self.endResetModel()\<close>:
  \<open>DataModel\<close> has no base class and defines no attribute of these names, so looking
  the method up raises AttributeError.
\<close>

definition show_status :: "DataModel \<Rightarrow> string \<Rightarrow> unit result" where
  "show_status m msg = Raise AttributeError"

definition beginResetModel :: "DataModel \<Rightarrow> unit result" where
  "beginResetModel m = Raise AttributeError"

definition endResetModel :: "DataModel \<Rightarrow> unit result" where
  "endResetModel m = Raise AttributeError"

text \<open>
  \<open>update_column_expression(col_idx, expression)\<close>. The argument \<open>col_idx\<close> is used as
  a key of \<open>_col_names\<close> and of the expressions, that is as a label; the expression is
  stored as given, under the column's name, and that one column is recalculated.
\<close>

definition update_column_expression ::
  "interpreter \<Rightarrow> DataModel \<Rightarrow> string \<Rightarrow> string \<Rightarrow> unit result \<times> DataModel" where
  "update_column_expression aeval m col_idx expression =
     (case get_column_name m col_idx of
        Raise e \<Rightarrow> (Raise e, m)
      | Ok col_name \<Rightarrow>
          if is_calculated_column m col_idx
          then (let m1 = m\<lparr>calculated_column_expression :=
                           (calculated_column_expression m)(col_name \<mapsto> Some expression)\<rparr>
                in case recalculate_column aeval m1 col_name (Some expression) of
                     (Raise e, m2) \<Rightarrow> (Raise e, m2)
                   | (Ok True, m2) \<Rightarrow>
                       (case show_status m2 ''Updated column values.'' of
                          Raise e \<Rightarrow> (Raise e, m2) | Ok _ \<Rightarrow> (Ok (), m2))
                   | (Ok False, m2) \<Rightarrow> (Ok (), m2))
          else (Ok (), m))"

subsection \<open>Saved state and CSV files\<close>

text \<open>
  The save object read by \<open>load_state_from_obj\<close>: its entries \<open>data\<close>,
  \<open>calculated_columns\<close> and \<open>new_col_num\<close>.
\<close>

record save_obj =
  obj_data :: frame
  obj_calculated_columns :: "string \<rightharpoonup> string option"
  obj_new_col_num :: nat

definition load_state_from_obj :: "DataModel \<Rightarrow> save_obj \<Rightarrow> unit result \<times> DataModel" where
  "load_state_from_obj m obj =
     (case beginResetModel m of
        Raise e \<Rightarrow> (Raise e, m)
      | Ok _ \<Rightarrow>
          (let m1 = m\<lparr>data := obj_data obj,
                      calculated_column_expression := obj_calculated_columns obj,
                      new_col_num := obj_new_col_num obj\<rparr>
           in case endResetModel m1 of
                Raise e \<Rightarrow> (Raise e, m1)
              | Ok _ \<Rightarrow> recalculate_all_columns m1))"

text \<open>
  \<open>_read_csv_into_dataframe\<close>: the file is parsed by \<open>pd.read_csv\<close>, outside the
  repository; \<open>raw\<close> is the frame it returns, with its column labels as strings. The
  labels are then normalized.
\<close>

definition read_csv_into_dataframe :: "frame \<Rightarrow> frame" where
  "read_csv_into_dataframe raw =
     raw\<lparr>columns := map (\<lambda>c. (normalize_column_name (fst c), snd c)) (columns raw)\<rparr>"

definition read_csv :: "DataModel \<Rightarrow> frame \<Rightarrow> unit result \<times> DataModel" where
  "read_csv m raw =
     (case beginResetModel m of
        Raise e \<Rightarrow> (Raise e, m)
      | Ok _ \<Rightarrow>
          (let m1 = m\<lparr>data := read_csv_into_dataframe raw,
                      calculated_column_expression := Map.empty\<rparr>
           in case endResetModel m1 of
                Raise e \<Rightarrow> (Raise e, m1) | Ok _ \<Rightarrow> (Ok (), m1)))"

text \<open>
  \<open>pd.concat([a, b], axis="columns")\<close> of two frames on a RangeIndex: the columns of
  \<open>a\<close>, then those of \<open>b\<close>, on the longer index, shorter columns filled with NaN.
\<close>

definition concat_columns :: "frame \<Rightarrow> frame \<Rightarrow> frame" where
  "concat_columns a b =
     (let n = max (nrows a) (nrows b)
      in \<lparr>nrows = n,
          columns = map (\<lambda>c. (fst c, snd c @ replicate (n - length (snd c)) NaN))
                        (columns a @ columns b)\<rparr>)"

text \<open>\<open>df.iloc[:k]\<close>: the first \<open>k\<close> rows.\<close>

definition iloc_rows :: "frame \<Rightarrow> nat \<Rightarrow> frame" where
  "iloc_rows df k =
     \<lparr>nrows = min k (nrows df), columns = map (\<lambda>c. (fst c, take k (snd c))) (columns df)\<rparr>"

text \<open>
  The frame that \<open>read_and_concat_csv\<close> computes between its two notifications:
  the existing columns whose label is a column of the imported frame are dropped
  (\<open>errors="ignore"\<close>), the imported columns are put in front, and the rows beyond
  the imported ones are cut.
\<close>

definition merged_frame :: "frame \<Rightarrow> frame \<Rightarrow> frame" where
  "merged_frame df raw =
     (let import_data = read_csv_into_dataframe raw;
          old_data = frame_drop df (labels_of import_data);
          new_data = concat_columns import_data old_data
      in iloc_rows new_data (nrows import_data))"

definition read_and_concat_csv :: "DataModel \<Rightarrow> frame \<Rightarrow> unit result \<times> DataModel" where
  "read_and_concat_csv m raw =
     (case beginResetModel m of
        Raise e \<Rightarrow> (Raise e, m)
      | Ok _ \<Rightarrow>
          (let m1 = m\<lparr>data := merged_frame (data m) raw\<rparr>
           in case endResetModel m1 of
                Raise e \<Rightarrow> (Raise e, m1)
              | Ok _ \<Rightarrow> recalculate_all_columns m1))"

subsection \<open>The fixtures of \<open>tests/test_data_model.py\<close>\<close>

text \<open>\<open>bare_bones_data\<close>: five rows, two data columns and the calculated column \<open>col3\<close>.\<close>

definition bare_bones_data :: DataModel where
  "bare_bones_data =
     \<lparr>data = \<lparr>nrows = 5, columns =
         [(''col1'', [Num 1, Num 2, Num 3, Num 4, Num 5]),
          (''col2'', [Num 6, Num 7, Num 8, Num 9, Num 10]),
          (''col3'', [Num 11, Num 12, Num 13, Num 14, Num 15])]\<rparr>,
      col_names = [''col2'' \<mapsto> ''y'', ''col3'' \<mapsto> ''z'', ''col1'' \<mapsto> ''x''],
      calculated_column_expression = [''col3'' \<mapsto> Some ''col2 + 5''],
      is_calculated_column_valid = [''col3'' \<mapsto> True],
      new_col_num = 3\<rparr>"

text \<open>\<open>calc_model\<close>: three rows, the calculated columns \<open>col1\<close>, \<open>col2\<close>, \<open>col4\<close> and \<open>col5\<close>.\<close>

definition calc_model :: DataModel where
  "calc_model =
     \<lparr>data = \<lparr>nrows = 3, columns =
         [(''col1'', [Num 1, Num 2, Num 3]), (''col2'', [Num 1, Num 2, Num 3]),
          (''col3'', [Num 1, Num 2, Num 3]), (''col4'', [Num 1, Num 2, Num 3]),
          (''col5'', [Num 1, Num 2, Num 3])]\<rparr>,
      col_names = [''col1'' \<mapsto> ''x'', ''col2'' \<mapsto> ''y'', ''col3'' \<mapsto> ''z'',
                   ''col4'' \<mapsto> ''t'', ''col5'' \<mapsto> ''u''],
      calculated_column_expression =
        [''col1'' \<mapsto> Some ''3.14'', ''col2'' \<mapsto> Some ''col1 ** 2'',
         ''col4'' \<mapsto> Some ''sqrt(col2)'', ''col5'' \<mapsto> Some ''''],
      is_calculated_column_valid =
        [''col1'' \<mapsto> True, ''col2'' \<mapsto> True, ''col4'' \<mapsto> True, ''col5'' \<mapsto> False],
      new_col_num = 0\<rparr>"

text \<open>The file of \<open>test_merge_csv\<close> as \<open>pd.read_csv\<close> returns it: four rows, columns x, t, z.\<close>

definition csv_x_t_z :: frame where
  "csv_x_t_z =
     \<lparr>nrows = 4, columns =
        [(''x'', [Num 1, Num 3, Num 5, Num 7]), (''t'', [Num 1, Num 2, Num 3, Num 4]),
         (''z'', [Num 0, Num 1, Num 2, Num 3])]\<rparr>"

text \<open>
  A table made with the methods alone: two calculated columns, inserted one after
  the other into a new model, and three rows. Their names are their labels.
\<close>

definition two_calculated :: DataModel where
  "two_calculated =
     snd (insert_rows
            (snd (insert_calculated_column (snd (insert_calculated_column init 0)) 1)) 0 3)"


text \<open>
  An interpreter for the two expressions used with it below: \<open>"5"\<close> evaluates to the
  float 5 whatever the accessible columns, and \<open>"2 *"\<close>, a syntax error, raises inside
  the \<open>try\<close> block. Every other expression is made to fail.
\<close>

definition aeval_five :: interpreter where
  "aeval_five objects expression =
     (if expression = Some ''5'' then Some (Scalar (Num 5)) else None)"

text \<open>
  \<open>two_calculated\<close> after the call \<open>update_column_expression("col2", "5")\<close>, which
  stores the expression of col2 and then raises.
\<close>

definition two_calculated_five :: DataModel where
  "two_calculated_five = snd (update_column_expression aeval_five two_calculated ''col2'' ''5'')"

subsection \<open>Sequences of operations\<close>

text \<open>
  One call of a mutating method of \<open>DataModel\<close>, with its arguments. A call that
  may evaluate an expression comes with the interpreter of that evaluation.
\<close>

datatype operation =
    Insert_rows nat nat
  | Remove_rows nat nat
  | Set_value nat nat cell
  | Insert_columns nat nat
  | Remove_columns nat nat
  | Move_column nat nat
  | Insert_calculated_column nat
  | Rename_column string string
  | Update_column_expression interpreter string string
  | Recalculate_column interpreter string "string option"
  | Recalculate_all_columns
  | Load_state_from_obj save_obj
  | Read_csv frame
  | Read_and_concat_csv frame

text \<open>The state a call leaves behind, whether it returns or raises.\<close>

fun perform :: "operation \<Rightarrow> DataModel \<Rightarrow> DataModel" where
  "perform (Insert_rows row count) m = snd (insert_rows m row count)"
| "perform (Remove_rows row count) m = snd (remove_rows m row count)"
| "perform (Set_value row column v) m = snd (set_value m row column v)"
| "perform (Insert_columns column count) m = snd (insert_columns m column count)"
| "perform (Remove_columns column count) m = snd (remove_columns m column count)"
| "perform (Move_column source dest) m = snd (move_column m source dest)"
| "perform (Insert_calculated_column column) m = snd (insert_calculated_column m column)"
| "perform (Rename_column label name) m = snd (rename_column m label name)"
| "perform (Update_column_expression aeval label e) m =
     snd (update_column_expression aeval m label e)"
| "perform (Recalculate_column aeval col_name e) m = snd (recalculate_column aeval m col_name e)"
| "perform Recalculate_all_columns m = snd (recalculate_all_columns m)"
| "perform (Load_state_from_obj obj) m = snd (load_state_from_obj m obj)"
| "perform (Read_csv raw) m = snd (read_csv m raw)"
| "perform (Read_and_concat_csv raw) m = snd (read_and_concat_csv m raw)"

fun run :: "operation list \<Rightarrow> DataModel \<Rightarrow> DataModel" where
  "run [] m = m"
| "run (x # xs) m = run xs (perform x m)"

text \<open>
  The invariant of the labels: the labels of the frame are distinct and each is the
  label of a counter value that has been reached.
\<close>

definition labels_ok :: "DataModel \<Rightarrow> bool" where
  "labels_ok m =
     (distinct (labels_of (data m)) \<and>
      set (labels_of (data m)) \<subseteq> col_label ` {1 .. new_col_num m})"

section \<open>Properties\<close>

subsection \<open>Validity of columns that are not calculated\<close>

text \<open>
  C10. A label that is no key of the calculated-column bookkeeping is reported valid,
  without an exception, whether or not the table has a column of that label: the
  answer does not depend on the DataFrame, the names or the validity flags.
\<close>

theorem is_column_valid_not_calculated:
  "calculated_column_expression m label = None \<Longrightarrow>
     is_column_valid m label = Ok True \<and>
     is_column_valid (m\<lparr>data := df, col_names := ns, is_calculated_column_valid := vs\<rparr>) label
       = Ok True"
  by (simp add: is_column_valid_def is_calculated_column_def)

theorem is_column_valid_not_calculated_witness:
  "calculated_column_expression init ''doesnotexist'' = None \<and>
   column_of (data init) ''doesnotexist'' = None \<and>
   is_column_valid init ''doesnotexist'' = Ok True"
  using is_column_valid_not_calculated [of init "''doesnotexist''"]
  by (simp add: init_def column_of_def empty_frame_def)

subsection \<open>Moving a column\<close>

lemma labels_reindex:
  "reindex df cols = Ok df' \<Longrightarrow> labels_of df' = cols \<and> nrows df' = nrows df"
  by (auto simp: reindex_def labels_of_def comp_def split: if_splits)

lemma column_of_reindex:
  assumes "reindex df cols = Ok df'" and "set cols = set (labels_of df)"
  shows "column_of df' = column_of df"
proof
  fix l
  from assms(1) have cs: "columns df' =
      map (\<lambda>l. (l, case column_of df l of None \<Rightarrow> replicate (nrows df) NaN | Some xs \<Rightarrow> xs)) cols"
    by (auto simp: reindex_def split: if_splits)
  show "column_of df' l = column_of df l"
  proof (cases "l \<in> set cols")
    case True
    then have "l \<in> fst ` set (columns df)" using assms(2) by (simp add: labels_of_def)
    then obtain xs where "map_of (columns df) l = Some xs"
      by (metis domD dom_map_of_conv_image_fst)
    then show ?thesis using True
      by (simp add: column_of_def cs map_of_map_restrict)
  next
    case False
    then have "l \<notin> fst ` set (columns df)" using assms(2) by (simp add: labels_of_def)
    then have "map_of (columns df) l = None" by (simp add: map_of_eq_None_iff)
    then show ?thesis using False
      by (simp add: column_of_def cs map_of_map_restrict)
  qed
qed

lemma list_insert_nth: "d \<le> length r \<Longrightarrow> list_insert r d x ! d = x"
  by (simp add: list_insert_def nth_append)

lemma list_insert_length: "length (list_insert r d x) = Suc (length r)"
  by (simp add: list_insert_def)

lemma list_insert_set: "set (list_insert r d x) = insert x (set r)"
proof -
  have "set (list_insert r d x) = insert x (set (take d r @ drop d r))"
    unfolding list_insert_def by (simp only: set_append list.set) auto
  then show ?thesis by simp
qed

lemma list_insert_remove:
  "d \<le> length r \<Longrightarrow> take d (list_insert r d x) @ drop (Suc d) (list_insert r d x) = r"
  by (simp add: list_insert_def min_def)

lemma remove_nth_set:
  assumes "s < length xs"
  shows "insert (xs ! s) (set (take s xs @ drop (Suc s) xs)) = set xs"
proof -
  have "insert (xs ! s) (set (take s xs @ drop (Suc s) xs))
          = set (take s xs @ xs ! s # drop (Suc s) xs)"
    by auto
  also have "\<dots> = set xs"
    using assms by (simp add: id_take_nth_drop [symmetric])
  finally show ?thesis .
qed

text \<open>
  C5. On a table with distinct labels and for a source and a destination in range,
  \<open>move_column\<close> returns normally, the moved label stands at index \<open>dest\<close> of the
  new order, the other labels keep their relative order (taking the moved label out
  of the new order gives the old order without it), every column keeps its cells, and
  nothing but the frame changes.
\<close>

theorem move_column_final_position:
  assumes "distinct (labels_of (data m))"
    and "source < num_columns m" and "dest < num_columns m"
  shows "fst (move_column m source dest) = Ok () \<and>
         labels_of (data (snd (move_column m source dest))) ! dest
           = labels_of (data m) ! source \<and>
         take dest (labels_of (data (snd (move_column m source dest))))
             @ drop (Suc dest) (labels_of (data (snd (move_column m source dest))))
           = take source (labels_of (data m)) @ drop (Suc source) (labels_of (data m)) \<and>
         column_of (data (snd (move_column m source dest))) = column_of (data m) \<and>
         snd (move_column m source dest) = m\<lparr>data := data (snd (move_column m source dest))\<rparr>"
proof -
  let ?ls = "labels_of (data m)"
  let ?r = "take source ?ls @ drop (Suc source) ?ls"
  let ?new = "list_insert ?r dest (?ls ! source)"
  have n: "length ?ls = num_columns m" by (simp add: labels_of_def num_columns_def)
  have s: "source < length ?ls" and d: "dest \<le> length ?r"
    using assms n by auto
  have pop: "list_pop ?ls source = Ok (?ls ! source, ?r)"
    using s by (simp add: list_pop_def)
  obtain df where df: "reindex (data m) ?new = Ok df"
    using assms(1) by (simp add: reindex_def)
  have mv: "move_column m source dest = (Ok (), m\<lparr>data := df\<rparr>)"
    by (simp add: move_column_def pop df)
  have ls': "labels_of df = ?new" using labels_reindex [OF df] by simp
  have "set ?new = set ?ls"
    using remove_nth_set [OF s] by (simp only: list_insert_set)
  then have cols: "column_of df = column_of (data m)"
    using column_of_reindex [OF df] by simp
  show ?thesis
    using list_insert_nth [OF d] list_insert_remove [OF d] cols
    by (simp add: mv ls')
qed

text \<open>Scenario C: \<open>move_column(0, 2)\<close> on the columns col1, col2, col3.\<close>

theorem move_column_final_position_witness:
  "distinct (labels_of (data bare_bones_data)) \<and> 0 < num_columns bare_bones_data \<and>
   2 < num_columns bare_bones_data \<and>
   fst (move_column bare_bones_data 0 2) = Ok () \<and>
   labels_of (data (snd (move_column bare_bones_data 0 2))) = [''col2'', ''col3'', ''col1'']"
  using move_column_final_position [of bare_bones_data 0 2]
  by (simp add: bare_bones_data_def move_column_def list_pop_def list_insert_def reindex_def
      labels_of_def num_columns_def column_of_def)

subsection \<open>Renaming a column\<close>

lemma normalize_column_name_examples:
  "normalize_column_name ''1x'' = ''_1x''" "normalize_column_name ''t x'' = ''t_x''"
  "normalize_column_name ''t x y'' = ''t_x_y''" "normalize_column_name ''  x'' = ''__x''"
  "normalize_column_name ''x  '' = ''x__''"
  by (simp_all add: normalize_column_name_def is_word_def is_digit_def)

text \<open>
  What \<open>rename_column\<close> does for a label that has a name: it stores the normalized
  name under the label, changes nothing else (no label, no expression, no other
  name), and returns \<open>None\<close>.
\<close>

lemma rename_column_effect:
  "col_names m label \<noteq> None \<Longrightarrow>
     rename_column m label name
       = (Ok None, m\<lparr>col_names := (col_names m)(label \<mapsto> normalize_column_name name)\<rparr>)"
  by (auto simp: rename_column_def get_column_name_def)

text \<open>
  C7. \<open>test_rename_column\<close> renames col1 of \<open>bare_bones_data\<close> to \<open>"t null"\<close> and expects
  the result \<open>"t_null"\<close>. The name is normalized and stored, labels and expressions stay
  as they are, but the call returns \<open>None\<close>.
\<close>

theorem rename_column_returns_None:
  "rename_column bare_bones_data ''col1'' ''t null''
     = (Ok None,
        bare_bones_data\<lparr>col_names := (col_names bare_bones_data)(''col1'' \<mapsto> ''t_null'')\<rparr>)"
  by (simp add: rename_column_def get_column_name_def bare_bones_data_def
      normalize_column_name_def is_word_def is_digit_def)

subsection \<open>Expressions as stored and as returned\<close>

text \<open>
  C4. The stored expression of col3 in \<open>bare_bones_data\<close> is \<open>"col2 + 5"\<close>, and col2 is
  named y. \<open>get_column_expression\<close> returns the stored text with its label, and returns
  the empty expression of col5 in \<open>calc_model\<close> as the empty string.
  \<open>update_column_expression("col3", "y + 5")\<close> stores the text as given, with the name
  y, and under the key z, the name of col3; recalculating a column z of the frame then
  raises KeyError.
\<close>

theorem expressions_kept_verbatim:
  "get_column_expression bare_bones_data ''col3'' = Some ''col2 + 5'' \<and>
   get_column_expression calc_model ''col5'' = Some '''' \<and>
   update_column_expression aeval bare_bones_data ''col3'' ''y + 5''
     = (Raise KeyError,
        bare_bones_data\<lparr>calculated_column_expression :=
          (calculated_column_expression bare_bones_data)(''z'' \<mapsto> Some ''y + 5'')\<rparr>)"
  by (simp add: get_column_expression_def update_column_expression_def get_column_name_def
      is_calculated_column_def recalculate_column_def get_accessible_columns_def get_loc_def
      labels_of_def bare_bones_data_def calc_model_def)

subsection \<open>The accessible columns\<close>


text \<open>
  C3. \<open>test_accessible_columns_are_present\<close> asks for the columns accessible to col3
  of \<open>calc_model\<close> and expects the valid columns to its left, under their names x and
  y. The call raises TypeError; for col1, which has no column to its left, it returns
  the empty dictionary.
\<close>

theorem get_accessible_columns_raises:
  "get_accessible_columns calc_model ''col3'' = Raise TypeError \<and>
   get_accessible_columns calc_model ''col1'' = Ok Map.empty"
  by (simp add: get_accessible_columns_def get_loc_def calc_model_def labels_of_def
      is_column_valid_kw_def)

subsection \<open>Recalculating one column\<close>

text \<open>
  Where the accessible columns are built, the \<open>try\<close> block does what its comments say:
  a failed evaluation is caught, the flag becomes False and the frame is not touched;
  a successful one stores the output and sets the flag.
\<close>

lemma recalculate_column_caught:
  assumes "get_accessible_columns m c = Ok objects" and "aeval objects (Some e) = None"
  shows "recalculate_column aeval m c (Some e)
           = (Ok False,
              m\<lparr>is_calculated_column_valid := (is_calculated_column_valid m)(c \<mapsto> False)\<rparr>)"
  using assms by (simp add: recalculate_column_def)

lemma recalculate_column_stored:
  assumes "get_accessible_columns m c = Ok objects" and "aeval objects (Some e) = Some out"
    and "set_column (data m) c out = Ok df"
  shows "recalculate_column aeval m c (Some e)
           = (Ok True, m\<lparr>data := df,
                is_calculated_column_valid := (is_calculated_column_valid m)(c \<mapsto> True)\<rparr>)"
  using assms by (simp add: recalculate_column_def)

text \<open>
  C2. \<open>test_recalculate_column_using_invalid_data\<close> recalculates col2 of \<open>calc_model\<close>
  with the expression \<open>"col3 ** 2"\<close>, whose evaluation fails (col3 is not to the left
  of col2), and expects the result False and an invalid column. Whatever the
  interpreter does, the call raises TypeError before the \<open>try\<close> block is entered, and
  the state, with the flag of col2 still True, is as before.
\<close>

theorem recalculate_column_raises:
  "recalculate_column aeval calc_model ''col2'' (Some ''col3 ** 2'')
     = (Raise TypeError, calc_model) \<and>
   is_calculated_column_valid calc_model ''col2'' = Some True"
  by (simp add: recalculate_column_def get_accessible_columns_def get_loc_def calc_model_def
      labels_of_def is_column_valid_kw_def)

subsection \<open>Updating an expression\<close>

lemma two_calculated_eq:
  "two_calculated =
     \<lparr>data = \<lparr>nrows = 3, columns = [(''col1'', [NaN, NaN, NaN]), (''col2'', [NaN, NaN, NaN])]\<rparr>,
      col_names = [''col1'' \<mapsto> ''col1'', ''col2'' \<mapsto> ''col2''],
      calculated_column_expression = [''col1'' \<mapsto> None, ''col2'' \<mapsto> None],
      is_calculated_column_valid = [''col1'' \<mapsto> False, ''col2'' \<mapsto> False],
      new_col_num = 2\<rparr>"
  by (simp add: two_calculated_def insert_rows_def insert_calculated_column_def insert_columns_def
      create_new_column_label_def col_label_def str_nat.simps frame_insert_def labels_of_def
      init_def empty_frame_def Let_def numeral_3_eq_3)

lemma map_of_replace_other:
  "k \<noteq> key \<Longrightarrow>
     map_of (map (\<lambda>c. if fst c = key then (key, cells) else c) cols) k = map_of cols k"
  by (induction cols) auto

lemma labels_replace:
  "map fst (map (\<lambda>c. if fst c = key then (key, cells) else c) cols) = map fst cols"
  by (induction cols) auto

lemma set_column_Ok:
  "set_column df c out = Ok df' \<Longrightarrow>
     \<exists>cells. df' = df\<lparr>columns := map (\<lambda>x. if fst x = c then (c, cells) else x) (columns df)\<rparr>"
  by (auto simp: set_column_def split: result.splits)

lemma set_column_other:
  "set_column df c out = Ok df' \<Longrightarrow> k \<noteq> c \<Longrightarrow> column_of df' k = column_of df k"
  by (auto simp: column_of_def map_of_replace_other dest!: set_column_Ok)

lemma set_column_labels:
  "set_column df c out = Ok df' \<Longrightarrow> labels_of df' = labels_of df \<and> nrows df' = nrows df"
  by (auto simp: labels_of_def labels_replace dest!: set_column_Ok)

text \<open>\<open>recalculate_column\<close> leaves every other column and every other flag alone.\<close>

lemma recalculate_column_frame:
  assumes "k \<noteq> c"
  shows "column_of (data (snd (recalculate_column aeval m c e))) k = column_of (data m) k"
    and "is_calculated_column_valid (snd (recalculate_column aeval m c e)) k
           = is_calculated_column_valid m k"
  using assms
  by (auto simp: recalculate_column_def set_column_other split: option.splits result.splits)

lemma recalculate_column_rest:
  "labels_of (data (snd (recalculate_column aeval m c e))) = labels_of (data m) \<and>
   nrows (data (snd (recalculate_column aeval m c e))) = nrows (data m) \<and>
   col_names (snd (recalculate_column aeval m c e)) = col_names m \<and>
   calculated_column_expression (snd (recalculate_column aeval m c e))
     = calculated_column_expression m \<and>
   new_col_num (snd (recalculate_column aeval m c e)) = new_col_num m"
  by (auto simp: recalculate_column_def set_column_labels split: option.splits result.splits)

text \<open>
  \<open>update_column_expression\<close> recalculates the one column it names and no other:
  whatever the interpreter and whether the call returns or raises, every column of
  another key keeps its cells, its flag and its expression.
\<close>

lemma update_column_expression_frame:
  assumes "col_names m label = Some name" and "k \<noteq> name"
  shows "column_of (data (snd (update_column_expression aeval m label e))) k
           = column_of (data m) k"
    and "is_calculated_column_valid (snd (update_column_expression aeval m label e)) k
           = is_calculated_column_valid m k"
    and "calculated_column_expression (snd (update_column_expression aeval m label e)) k
           = calculated_column_expression m k"
proof -
  let ?m1 = "m\<lparr>calculated_column_expression :=
                 (calculated_column_expression m)(name \<mapsto> Some e)\<rparr>"
  let ?r = "recalculate_column aeval ?m1 name (Some e)"
  have snd_eq: "snd (update_column_expression aeval m label e)
                  = (if is_calculated_column m label then snd ?r else m)"
    using assms(1)
    by (simp add: update_column_expression_def get_column_name_def show_status_def Let_def
        split: prod.splits result.splits bool.splits)
  show "column_of (data (snd (update_column_expression aeval m label e))) k
          = column_of (data m) k"
    using recalculate_column_frame(1) [OF assms(2), of aeval ?m1 "Some e"]
    by (simp add: snd_eq)
  show "is_calculated_column_valid (snd (update_column_expression aeval m label e)) k
          = is_calculated_column_valid m k"
    using recalculate_column_frame(2) [OF assms(2), of aeval ?m1 "Some e"]
    by (simp add: snd_eq)
  show "calculated_column_expression (snd (update_column_expression aeval m label e)) k
          = calculated_column_expression m k"
    using recalculate_column_rest [of aeval ?m1 name "Some e"] assms(2)
    by (simp add: snd_eq)
qed

lemma recalculate_column_by_steps:
  "recalculate_column aeval m col_name expression =
     (case (case expression of
              None \<Rightarrow> (case calculated_column_expression m col_name of
                          None \<Rightarrow> Raise KeyError | Some stored \<Rightarrow> Ok stored)
            | Some e \<Rightarrow> Ok (Some e)) of
        Raise e \<Rightarrow> (Raise e, m)
      | Ok expression' \<Rightarrow>
          (case get_accessible_columns m col_name of
             Raise e \<Rightarrow> (Raise e, m)
           | Ok objects \<Rightarrow> evaluate_and_store aeval m col_name expression' objects))"
  by (simp add: recalculate_column_def evaluate_and_store_def
      split: result.splits option.splits)

lemma two_calculated_five_eq:
  "two_calculated_five =
     \<lparr>data = \<lparr>nrows = 3, columns = [(''col1'', [NaN, NaN, NaN]), (''col2'', [NaN, NaN, NaN])]\<rparr>,
      col_names = [''col1'' \<mapsto> ''col1'', ''col2'' \<mapsto> ''col2''],
      calculated_column_expression = [''col1'' \<mapsto> None, ''col2'' \<mapsto> Some ''5''],
      is_calculated_column_valid = [''col1'' \<mapsto> False, ''col2'' \<mapsto> False],
      new_col_num = 2\<rparr>"
  by (simp add: two_calculated_five_def two_calculated_eq update_column_expression_def
      get_column_name_def is_calculated_column_def recalculate_column_def
      get_accessible_columns_def get_loc_def labels_of_def is_column_valid_kw_def)

lemma update_col1_of_two_calculated_five:
  "update_column_expression aeval_five two_calculated_five ''col1'' ''2 *'' =
     (Ok (),
      \<lparr>data = \<lparr>nrows = 3, columns = [(''col1'', [NaN, NaN, NaN]), (''col2'', [NaN, NaN, NaN])]\<rparr>,
       col_names = [''col1'' \<mapsto> ''col1'', ''col2'' \<mapsto> ''col2''],
       calculated_column_expression = [''col1'' \<mapsto> Some ''2 *'', ''col2'' \<mapsto> Some ''5''],
       is_calculated_column_valid = [''col1'' \<mapsto> False, ''col2'' \<mapsto> False],
       new_col_num = 2\<rparr>)"
  by (simp add: two_calculated_five_eq update_column_expression_def
      get_column_name_def is_calculated_column_def recalculate_column_def
      get_accessible_columns_def get_loc_def labels_of_def aeval_five_def fun_upd_twist)

text \<open>
  C1. \<open>two_calculated_five\<close> is made with the methods alone: the calculated columns
  col1 and col2, three rows of NaN, and \<open>"5"\<close> stored as the expression of col2. The
  call \<open>update_column_expression("col1", "2 *")\<close> returns (the new expression of col1 is
  a syntax error, which the \<open>try\<close> block catches). After it col2, a calculated column
  to the right of col1, still has its cells NaN and its flag False, although its
  expression is \<open>"5"\<close>: re-evaluating col2 in the state the call leaves, whatever the
  accessible columns are, stores 5 in every row and sets the flag. So col2 has not
  been re-evaluated. A pass over the columns at and after col1 would have left either
  these cells of 5 or, through the TypeError of \<open>_get_accessible_columns\<close>, a call that
  does not return.
\<close>

theorem update_column_expression_no_cascade:
  "fst (update_column_expression aeval_five two_calculated_five ''col1'' ''2 *'') = Ok () \<and>
   labels_of (data (snd (update_column_expression aeval_five two_calculated_five ''col1'' ''2 *'')))
     = [''col1'', ''col2''] \<and>
   calculated_column_expression
       (snd (update_column_expression aeval_five two_calculated_five ''col1'' ''2 *'')) ''col2''
     = Some (Some ''5'') \<and>
   column_of (data (snd (update_column_expression aeval_five two_calculated_five ''col1'' ''2 *'')))
       ''col2''
     = Some [NaN, NaN, NaN] \<and>
   is_calculated_column_valid
       (snd (update_column_expression aeval_five two_calculated_five ''col1'' ''2 *'')) ''col2''
     = Some False \<and>
   fst (evaluate_and_store aeval_five
          (snd (update_column_expression aeval_five two_calculated_five ''col1'' ''2 *''))
          ''col2'' (Some ''5'') objects) = Ok True \<and>
   column_of (data (snd (evaluate_and_store aeval_five
          (snd (update_column_expression aeval_five two_calculated_five ''col1'' ''2 *''))
          ''col2'' (Some ''5'') objects))) ''col2''
     = Some [Num 5, Num 5, Num 5] \<and>
   is_calculated_column_valid (snd (evaluate_and_store aeval_five
          (snd (update_column_expression aeval_five two_calculated_five ''col1'' ''2 *''))
          ''col2'' (Some ''5'') objects)) ''col2''
     = Some True"
  by (simp add: update_col1_of_two_calculated_five evaluate_and_store_def aeval_five_def
      set_column_def labels_of_def column_of_def numeral_3_eq_3)

subsection \<open>Merging a CSV file\<close>

lemma read_and_concat_csv_raises: "read_and_concat_csv m raw = (Raise AttributeError, m)"
  by (simp add: read_and_concat_csv_def beginResetModel_def)

text \<open>
  The frame computed between the two notifications has the imported columns first,
  then the old columns whose label is none of the imported ones, on as many rows as
  the imported frame.
\<close>

lemma merged_frame_labels:
  "labels_of (merged_frame df raw) =
     map normalize_column_name (labels_of raw)
     @ filter (\<lambda>l. l \<notin> set (map normalize_column_name (labels_of raw))) (labels_of df)"
proof -
  have "fst ` (\<lambda>c. (normalize_column_name (fst c), snd c)) ` set (columns raw)
          = (\<lambda>x. normalize_column_name (fst x)) ` set (columns raw)"
    by (simp add: image_image)
  then show ?thesis
    by (simp add: merged_frame_def iloc_rows_def concat_columns_def frame_drop_def
        read_csv_into_dataframe_def labels_of_def comp_def filter_map Let_def)
qed

lemma merged_frame_nrows: "nrows (merged_frame df raw) = nrows raw"
  by (simp add: merged_frame_def iloc_rows_def concat_columns_def read_csv_into_dataframe_def
      Let_def)

text \<open>
  C6. Merging the file of \<open>test_merge_csv\<close> (columns x, t, z, four rows) into
  \<open>bare_bones_data\<close>, whose calculated column col3 is named z: the call raises
  AttributeError at \<open>self.beginResetModel()\<close> and leaves the model as it was, col3
  still calculated. The frame that the lines after that call compute matches the
  imported columns against the labels col1, col2, col3, not against the names: it keeps
  col3 with its old cells behind x, t and z, cut to four rows.
\<close>

theorem read_and_concat_csv_no_merge:
  "read_and_concat_csv bare_bones_data csv_x_t_z = (Raise AttributeError, bare_bones_data) \<and>
   is_calculated_column bare_bones_data ''col3'' \<and>
   labels_of (merged_frame (data bare_bones_data) csv_x_t_z)
     = [''x'', ''t'', ''z'', ''col1'', ''col2'', ''col3''] \<and>
   nrows (merged_frame (data bare_bones_data) csv_x_t_z) = 4 \<and>
   column_of (merged_frame (data bare_bones_data) csv_x_t_z) ''col3''
     = Some [Num 11, Num 12, Num 13, Num 14]"
  by (simp add: read_and_concat_csv_def beginResetModel_def is_calculated_column_def
      bare_bones_data_def csv_x_t_z_def merged_frame_def iloc_rows_def concat_columns_def
      frame_drop_def read_csv_into_dataframe_def labels_of_def column_of_def
      normalize_column_name_def is_word_def is_digit_def Let_def)

subsection \<open>Recalculating twice\<close>







subsection \<open>Labels\<close>

lemma str_nat_nonempty: "str_nat n \<noteq> []"
  by (subst str_nat.simps) simp

lemma digit_inj:
  assumes "a < 10" and "b < 10" and "''0123456789'' ! a = ''0123456789'' ! b"
  shows "a = b"
proof -
  have "distinct ''0123456789''" by simp
  moreover have "a < length ''0123456789''" "b < length ''0123456789''" using assms by simp_all
  ultimately show ?thesis using assms(3) by (simp only: nth_eq_iff_index_eq)
qed

lemma str_nat_inj: "str_nat a = str_nat b \<Longrightarrow> a = b"
proof (induction a arbitrary: b rule: str_nat.induct)
  case (1 n)
  show ?case
  proof (cases "n < 10")
    case True
    show ?thesis
    proof (cases "b < 10")
      case b: True
      then show ?thesis using True "1.prems" digit_inj [of n b]
        by (simp add: str_nat.simps [of n] str_nat.simps [of b])
    next
      case False
      then show ?thesis using True "1.prems" str_nat_nonempty [of "b div 10"]
        by (simp add: str_nat.simps [of n] str_nat.simps [of b])
    qed
  next
    case False
    show ?thesis
    proof (cases "b < 10")
      case True
      then show ?thesis using False "1.prems" str_nat_nonempty [of "n div 10"]
        by (simp add: str_nat.simps [of n] str_nat.simps [of b])
    next
      case b: False
      have eq: "str_nat (n div 10) = str_nat (b div 10)"
        and dg: "''0123456789'' ! (n mod 10) = ''0123456789'' ! (b mod 10)"
        using False b "1.prems" by (simp_all add: str_nat.simps [of n] str_nat.simps [of b])
      have "n div 10 = b div 10" using "1.IH" [OF False eq] .
      moreover have "n mod 10 = b mod 10" using digit_inj [OF _ _ dg] by simp
      ultimately show ?thesis by (metis div_mult_mod_eq)
    qed
  qed
qed

lemma col_label_inj: "inj col_label"
  by (auto simp: inj_on_def col_label_def dest: str_nat_inj)

lemma create_labels_eq:
  "create_labels n m =
     (map col_label [Suc (new_col_num m) ..< Suc (new_col_num m) + n],
      m\<lparr>new_col_num := new_col_num m + n\<rparr>)"
proof (induction n arbitrary: m)
  case 0
  then show ?case by simp
next
  case (Suc n)
  have "[Suc (new_col_num m) ..< Suc (new_col_num m) + Suc n]
          = Suc (new_col_num m) # [Suc (Suc (new_col_num m)) ..< Suc (Suc (new_col_num m)) + n]"
    by (simp add: upt_conv_Cons)
  then show ?case
    by (simp add: Suc.IH create_new_column_label_def Let_def)
qed

lemma frame_insert_labels:
  assumes "frame_insert df loc l v = Ok df'"
  shows "l \<notin> set (labels_of df)"
    and "labels_of df' = take loc (labels_of df) @ l # drop loc (labels_of df)"
  using assms
  by (auto simp: frame_insert_def labels_of_def take_map drop_map split: if_splits)

lemma insert_loop_labels:
  assumes "distinct (labels_of (data m))"
  shows "distinct (labels_of (data (snd (insert_loop ps m)))) \<and>
         set (labels_of (data (snd (insert_loop ps m))))
           \<subseteq> set (labels_of (data m)) \<union> snd ` set ps \<and>
         new_col_num (snd (insert_loop ps m)) = new_col_num m"
  using assms
proof (induction ps arbitrary: m)
  case Nil
  then show ?case by simp
next
  case (Cons p ps)
  obtain idx l where p: "p = (idx, l)" by (cases p)
  show ?case
  proof (cases "frame_insert (data m) idx l NaN")
    case (Raise e)
    then show ?thesis using Cons.prems p by auto
  next
    case (Ok df)
    let ?m' = "m\<lparr>data := df, col_names := (col_names m)(l \<mapsto> l)\<rparr>"
    have ls: "labels_of df = take idx (labels_of (data m)) @ l # drop idx (labels_of (data m))"
      and new: "l \<notin> set (labels_of (data m))"
      using frame_insert_labels [OF Ok] by simp_all
    have set_eq: "set (labels_of df) = insert l (set (labels_of (data m)))"
    proof -
      have "set (labels_of df)
              = insert l (set (take idx (labels_of (data m)) @ drop idx (labels_of (data m))))"
        unfolding ls by (simp only: set_append list.set) auto
      then show ?thesis by simp
    qed
    have "set (take idx (labels_of (data m))) \<inter> set (drop idx (labels_of (data m))) = {}"
      using Cons.prems by (simp add: set_take_disj_set_drop_if_distinct)
    moreover have "distinct (take idx (labels_of (data m)))"
      and "distinct (drop idx (labels_of (data m)))"
      using Cons.prems by simp_all
    moreover have "l \<notin> set (take idx (labels_of (data m)))"
      and "l \<notin> set (drop idx (labels_of (data m)))"
      using new by (auto dest: in_set_takeD in_set_dropD)
    ultimately have d: "distinct (labels_of df)"
      unfolding ls by (simp only: distinct_append distinct.simps list.set) blast
    have "distinct (labels_of (data ?m'))" using d by simp
    from Cons.IH [OF this] show ?thesis
      using p Ok set_eq by auto
  qed
qed

lemma snd_zip_subset: "snd ` set (zip xs ys) \<subseteq> set ys"
  by (auto dest: set_zip_rightD)

lemma insert_columns_snd:
  "snd (insert_columns m column count)
     = snd (insert_loop (zip [column ..< column + count] (fst (create_labels count m)))
              (snd (create_labels count m)))"
  by (simp add: insert_columns_def split: prod.splits result.splits)

lemma labels_ok_insert_columns:
  assumes "labels_ok m"
  shows "labels_ok (snd (insert_columns m column count))"
    and "new_col_num (snd (insert_columns m column count)) = new_col_num m + count"
proof -
  let ?ls = "map col_label [Suc (new_col_num m) ..< Suc (new_col_num m) + count]"
  let ?m1 = "m\<lparr>new_col_num := new_col_num m + count\<rparr>"
  let ?m2 = "snd (insert_loop (zip [column ..< column + count] ?ls) ?m1)"
  have snd_eq: "snd (insert_columns m column count) = ?m2"
    by (simp add: insert_columns_snd create_labels_eq)
  have "distinct (labels_of (data ?m1))" using assms by (simp add: labels_ok_def)
  from insert_loop_labels [OF this, of "zip [column ..< column + count] ?ls"]
  have d: "distinct (labels_of (data ?m2))"
    and sub: "set (labels_of (data ?m2))
                \<subseteq> set (labels_of (data m)) \<union> snd ` set (zip [column ..< column + count] ?ls)"
    and n: "new_col_num ?m2 = new_col_num m + count"
    by simp_all
  have "snd ` set (zip [column ..< column + count] ?ls) \<subseteq> set ?ls"
    by (rule snd_zip_subset)
  also have "\<dots> = col_label ` {Suc (new_col_num m) ..< Suc (new_col_num m) + count}"
    by (simp only: set_map set_upt)
  also have "\<dots> \<subseteq> col_label ` {1 .. new_col_num m + count}"
    by (rule image_mono) auto
  finally have a: "snd ` set (zip [column ..< column + count] ?ls)
                     \<subseteq> col_label ` {1 .. new_col_num m + count}" .
  have "set (labels_of (data m)) \<subseteq> col_label ` {1 .. new_col_num m}"
    using assms by (simp add: labels_ok_def)
  also have "\<dots> \<subseteq> col_label ` {1 .. new_col_num m + count}" by auto
  finally have b: "set (labels_of (data m)) \<subseteq> col_label ` {1 .. new_col_num m + count}" .
  show "labels_ok (snd (insert_columns m column count))"
    unfolding snd_eq labels_ok_def using d sub a b n by (simp only:) blast
  show "new_col_num (snd (insert_columns m column count)) = new_col_num m + count"
    unfolding snd_eq using n .
qed

lemma insert_calculated_column_snd:
  "data (snd (insert_calculated_column m column)) = data (snd (insert_columns m column 1)) \<and>
   new_col_num (snd (insert_calculated_column m column))
     = new_col_num (snd (insert_columns m column 1))"
  by (simp add: insert_calculated_column_def split: prod.splits result.splits list.splits)

lemma labels_ok_cong:
  "data m' = data m \<Longrightarrow> new_col_num m' = new_col_num m \<Longrightarrow> labels_ok m' = labels_ok m"
  by (simp add: labels_ok_def)

lemma labels_ok_same_labels:
  "labels_ok m \<Longrightarrow> labels_of (data m') = labels_of (data m) \<Longrightarrow>
     new_col_num m' = new_col_num m \<Longrightarrow> labels_ok m'"
  by (simp add: labels_ok_def)

lemma labels_frame_drop:
  "labels_of (frame_drop df ls) = filter (\<lambda>l. l \<notin> set ls) (labels_of df)"
  by (simp add: frame_drop_def labels_of_def filter_map comp_def)

lemma labels_ok_remove_columns:
  assumes "labels_ok m"
  shows "labels_ok (snd (remove_columns m column count))"
    and "new_col_num (snd (remove_columns m column count)) = new_col_num m"
  using assms
  by (auto simp: remove_columns_def recalculate_all_columns_def labels_ok_def Let_def
      labels_frame_drop)

lemma distinct_list_insert:
  assumes "distinct xs" and "s < length xs"
  shows "distinct (list_insert (take s xs @ drop (Suc s) xs) d (xs ! s))"
proof -
  let ?new = "list_insert (take s xs @ drop (Suc s) xs) d (xs ! s)"
  have "set ?new = set xs"
    using remove_nth_set [OF assms(2)] by (simp only: list_insert_set)
  moreover have "length ?new = length xs"
    using assms(2) by (simp add: list_insert_length)
  ultimately have "card (set ?new) = length ?new"
    using assms(1) by (simp add: distinct_card)
  then show ?thesis by (rule card_distinct)
qed

lemma labels_ok_move_column:
  assumes "labels_ok m"
  shows "labels_ok (snd (move_column m source dest))"
    and "new_col_num (snd (move_column m source dest)) = new_col_num m"
proof -
  let ?ls = "labels_of (data m)"
  show "new_col_num (snd (move_column m source dest)) = new_col_num m"
    by (simp add: move_column_def split: result.splits prod.splits)
  show "labels_ok (snd (move_column m source dest))"
  proof (cases "source < length ?ls")
    case False
    then show ?thesis using assms by (simp add: move_column_def list_pop_def)
  next
    case True
    let ?new = "list_insert (take source ?ls @ drop (Suc source) ?ls) dest (?ls ! source)"
    obtain df where df: "reindex (data m) ?new = Ok df"
      using assms by (simp add: reindex_def labels_ok_def)
    have mv: "snd (move_column m source dest) = m\<lparr>data := df\<rparr>"
      using True by (simp add: move_column_def list_pop_def df)
    have ls': "labels_of df = ?new" using labels_reindex [OF df] by simp
    have "set ?new = set ?ls"
      using remove_nth_set [OF True] by (simp only: list_insert_set)
    moreover have "distinct ?new"
      using distinct_list_insert [OF _ True] assms by (simp add: labels_ok_def)
    ultimately show ?thesis
      using assms by (simp add: mv labels_ok_def ls')
  qed
qed

lemma labels_list_update:
  "map fst (cols[column := (fst (cols ! column), y)]) = map fst cols"
  by (induction cols arbitrary: column) (auto split: nat.splits)

lemma labels_set_value:
  "labels_of (data (snd (set_value m row column v))) = labels_of (data m) \<and>
   new_col_num (snd (set_value m row column v)) = new_col_num m"
  by (simp add: set_value_def Let_def labels_of_def labels_list_update)

lemma labels_insert_rows:
  "labels_of (data (snd (insert_rows m row count))) = labels_of (data m) \<and>
   new_col_num (snd (insert_rows m row count)) = new_col_num m"
  by (simp add: insert_rows_def Let_def labels_of_def comp_def)

lemma labels_remove_rows:
  "labels_of (data (snd (remove_rows m row count))) = labels_of (data m) \<and>
   new_col_num (snd (remove_rows m row count)) = new_col_num m"
  by (simp add: remove_rows_def Let_def labels_of_def comp_def)

lemma labels_rename_column:
  "data (snd (rename_column m label name)) = data m \<and>
   new_col_num (snd (rename_column m label name)) = new_col_num m"
  by (simp add: rename_column_def Let_def split: result.splits)

lemma labels_update_column_expression:
  "labels_of (data (snd (update_column_expression aeval m label e))) = labels_of (data m) \<and>
   new_col_num (snd (update_column_expression aeval m label e)) = new_col_num m"
proof (cases "col_names m label")
  case None
  then show ?thesis by (simp add: update_column_expression_def get_column_name_def)
next
  case (Some name)
  let ?m1 = "m\<lparr>calculated_column_expression :=
                 (calculated_column_expression m)(name \<mapsto> Some e)\<rparr>"
  have "snd (update_column_expression aeval m label e)
          = (if is_calculated_column m label
             then snd (recalculate_column aeval ?m1 name (Some e)) else m)"
    using Some
    by (simp add: update_column_expression_def get_column_name_def show_status_def Let_def
        split: prod.splits result.splits bool.splits)
  then show ?thesis
    using recalculate_column_rest [of aeval ?m1 name "Some e"] by simp
qed

lemma unchanged_by_reset:
  "snd (load_state_from_obj m obj) = m" "snd (read_csv m raw) = m"
  "snd (read_and_concat_csv m raw) = m" "snd (recalculate_all_columns m) = m"
  by (simp_all add: load_state_from_obj_def read_csv_def read_and_concat_csv_def
      beginResetModel_def recalculate_all_columns_def)


lemma labels_insert_columns_new:
  assumes "labels_ok m"
  shows "set (labels_of (data (snd (insert_columns m column count))))
           \<subseteq> set (labels_of (data m))
               \<union> col_label ` {new_col_num m <.. new_col_num (snd (insert_columns m column count))}"
proof -
  let ?ls = "map col_label [Suc (new_col_num m) ..< Suc (new_col_num m) + count]"
  let ?m1 = "m\<lparr>new_col_num := new_col_num m + count\<rparr>"
  let ?m2 = "snd (insert_loop (zip [column ..< column + count] ?ls) ?m1)"
  have snd_eq: "snd (insert_columns m column count) = ?m2"
    by (simp add: insert_columns_snd create_labels_eq)
  have "distinct (labels_of (data ?m1))" using assms by (simp add: labels_ok_def)
  from insert_loop_labels [OF this, of "zip [column ..< column + count] ?ls"]
  have sub: "set (labels_of (data ?m2))
                \<subseteq> set (labels_of (data m)) \<union> snd ` set (zip [column ..< column + count] ?ls)"
    and n: "new_col_num ?m2 = new_col_num m + count"
    by simp_all
  have "snd ` set (zip [column ..< column + count] ?ls) \<subseteq> set ?ls"
    by (rule snd_zip_subset)
  also have "\<dots> = col_label ` {Suc (new_col_num m) ..< Suc (new_col_num m) + count}"
    by (simp only: set_map set_upt)
  also have "\<dots> \<subseteq> col_label ` {new_col_num m <.. new_col_num m + count}"
    by (rule image_mono) auto
  finally show ?thesis
    unfolding snd_eq n using sub by blast
qed

lemma labels_remove_columns_subset:
  "set (labels_of (data (snd (remove_columns m column count)))) \<subseteq> set (labels_of (data m))"
  by (auto simp: remove_columns_def recalculate_all_columns_def Let_def labels_frame_drop)

lemma labels_move_column_set:
  assumes "labels_ok m"
  shows "set (labels_of (data (snd (move_column m source dest)))) = set (labels_of (data m))"
proof (cases "source < length (labels_of (data m))")
  case False
  then show ?thesis by (simp add: move_column_def list_pop_def)
next
  case True
  let ?ls = "labels_of (data m)"
  let ?new = "list_insert (take source ?ls @ drop (Suc source) ?ls) dest (?ls ! source)"
  obtain df where df: "reindex (data m) ?new = Ok df"
    using assms by (simp add: reindex_def labels_ok_def)
  have mv: "snd (move_column m source dest) = m\<lparr>data := df\<rparr>"
    using True by (simp add: move_column_def list_pop_def df)
  have "labels_of df = ?new" using labels_reindex [OF df] by simp
  moreover have "set ?new = set ?ls"
    using remove_nth_set [OF True] by (simp only: list_insert_set)
  ultimately show ?thesis by (simp add: mv)
qed

lemma perform_labels_ok:
  assumes "labels_ok m"
  shows "labels_ok (perform x m) \<and>
         new_col_num m \<le> new_col_num (perform x m) \<and>
         set (labels_of (data (perform x m)))
           \<subseteq> set (labels_of (data m))
               \<union> col_label ` {new_col_num m <.. new_col_num (perform x m)}"
proof (cases x)
  case (Insert_rows row count)
  then show ?thesis
    using labels_ok_same_labels [OF assms, of "snd (insert_rows m row count)"]
      labels_insert_rows [of m row count]
    by simp
next
  case (Remove_rows row count)
  then show ?thesis
    using labels_ok_same_labels [OF assms, of "snd (remove_rows m row count)"]
      labels_remove_rows [of m row count]
    by simp
next
  case (Set_value row column v)
  then show ?thesis
    using labels_ok_same_labels [OF assms, of "snd (set_value m row column v)"]
      labels_set_value [of m row column v]
    by simp
next
  case (Insert_columns column count)
  then show ?thesis
    using labels_ok_insert_columns [OF assms, of column count]
      labels_insert_columns_new [OF assms, of column count]
    by simp
next
  case (Remove_columns column count)
  then show ?thesis
    using labels_ok_remove_columns [OF assms, of column count]
      labels_remove_columns_subset [of m column count]
    by auto
next
  case (Move_column source dest)
  then show ?thesis
    using labels_ok_move_column [OF assms, of source dest]
      labels_move_column_set [OF assms, of source dest]
    by simp
next
  case (Insert_calculated_column column)
  have "labels_ok (snd (insert_calculated_column m column))"
    using labels_ok_insert_columns [OF assms, of column 1] insert_calculated_column_snd [of m column]
    by (simp add: labels_ok_def)
  then show ?thesis
    using Insert_calculated_column labels_ok_insert_columns(2) [OF assms, of column 1]
      labels_insert_columns_new [OF assms, of column 1]
      insert_calculated_column_snd [of m column]
    by simp
next
  case (Rename_column label name)
  then show ?thesis
    using labels_ok_same_labels [OF assms, of "snd (rename_column m label name)"]
      labels_rename_column [of m label name]
    by simp
next
  case (Update_column_expression aeval label e)
  then show ?thesis
    using labels_ok_same_labels [OF assms, of "snd (update_column_expression aeval m label e)"]
      labels_update_column_expression [of aeval m label e]
    by simp
next
  case (Recalculate_column aeval c e)
  then show ?thesis
    using labels_ok_same_labels [OF assms, of "snd (recalculate_column aeval m c e)"]
      recalculate_column_rest [of aeval m c e]
    by simp
next
  case Recalculate_all_columns
  then show ?thesis using assms by (simp add: unchanged_by_reset)
next
  case (Load_state_from_obj obj)
  then show ?thesis using assms by (simp add: unchanged_by_reset)
next
  case (Read_csv raw)
  then show ?thesis using assms by (simp add: unchanged_by_reset)
next
  case (Read_and_concat_csv raw)
  then show ?thesis using assms by (simp add: unchanged_by_reset)
qed

lemma subset_chain:
  assumes "A \<subseteq> B \<union> C1" and "B \<subseteq> D \<union> C0" and "C0 \<subseteq> C" and "C1 \<subseteq> C"
  shows "A \<subseteq> D \<union> C"
  using assms by blast

lemma run_labels_ok:
  assumes "labels_ok m"
  shows "labels_ok (run xs m) \<and>
         new_col_num m \<le> new_col_num (run xs m) \<and>
         set (labels_of (data (run xs m)))
           \<subseteq> set (labels_of (data m)) \<union> col_label ` {new_col_num m <.. new_col_num (run xs m)}"
  using assms
proof (induction xs arbitrary: m)
  case Nil
  then show ?case by simp
next
  case (Cons x xs)
  let ?m' = "perform x m"
  from perform_labels_ok [OF Cons.prems, of x]
  have ok: "labels_ok ?m'" and le: "new_col_num m \<le> new_col_num ?m'"
    and sub: "set (labels_of (data ?m'))
                \<subseteq> set (labels_of (data m)) \<union> col_label ` {new_col_num m <.. new_col_num ?m'}"
    by (rule conjunct1, rule conjunct2 [THEN conjunct1], rule conjunct2 [THEN conjunct2])
  from Cons.IH [OF ok]
  have ok': "labels_ok (run xs ?m')" and le': "new_col_num ?m' \<le> new_col_num (run xs ?m')"
    and sub': "set (labels_of (data (run xs ?m')))
                 \<subseteq> set (labels_of (data ?m'))
                     \<union> col_label ` {new_col_num ?m' <.. new_col_num (run xs ?m')}"
    by (rule conjunct1, rule conjunct2 [THEN conjunct1], rule conjunct2 [THEN conjunct2])
  have "{new_col_num m <.. new_col_num ?m'} \<subseteq> {new_col_num m <.. new_col_num (run xs ?m')}"
    using le' by auto
  then have c0: "col_label ` {new_col_num m <.. new_col_num ?m'}
          \<subseteq> col_label ` {new_col_num m <.. new_col_num (run xs ?m')}"
    by (rule image_mono)
  have "{new_col_num ?m' <.. new_col_num (run xs ?m')}
          \<subseteq> {new_col_num m <.. new_col_num (run xs ?m')}"
    using le by auto
  then have c1: "col_label ` {new_col_num ?m' <.. new_col_num (run xs ?m')}
          \<subseteq> col_label ` {new_col_num m <.. new_col_num (run xs ?m')}"
    by (rule image_mono)
  have "set (labels_of (data (run xs ?m')))
      \<subseteq> set (labels_of (data m)) \<union> col_label ` {new_col_num m <.. new_col_num (run xs ?m')}"
    using sub' sub c0 c1 by (rule subset_chain)
  moreover have "new_col_num m \<le> new_col_num (run xs ?m')" using le le' by (rule le_trans)
  ultimately show ?case using ok' by (simp only: run.simps simp_thms)
qed

lemma labels_ok_init: "labels_ok init"
  by (simp add: labels_ok_def init_def empty_frame_def labels_of_def)

lemma label_never_returns:
  assumes "labels_ok m" and "l \<in> set (labels_of (data m))"
    and "l \<notin> set (labels_of (data (run ys m)))"
  shows "l \<notin> set (labels_of (data (run zs (run ys m))))"
proof
  assume in_final: "l \<in> set (labels_of (data (run zs (run ys m))))"
  let ?m1 = "run ys m"
  have ok1: "labels_ok ?m1" and le1: "new_col_num m \<le> new_col_num ?m1"
    using run_labels_ok [OF assms(1), of ys] by simp_all
  obtain k where k: "l = col_label k" "k \<le> new_col_num m"
    using assms(1,2) by (auto simp: labels_ok_def)
  have "l \<in> col_label ` {new_col_num ?m1 <.. new_col_num (run zs ?m1)}"
    using run_labels_ok [OF ok1, of zs] in_final assms(3) by blast
  then obtain j where j: "l = col_label j" "new_col_num ?m1 < j" by auto
  have "k = j" using k(1) j(1) col_label_inj by (simp add: inj_eq)
  then show False using k(2) j(2) le1 by simp
qed



lemma insert_loop_exact:
  assumes "column \<le> length (labels_of (data m))" and "distinct ls"
    and "set ls \<inter> set (labels_of (data m)) = {}"
  shows "fst (insert_loop (zip [column ..< column + length ls] ls) m) = Ok () \<and>
         labels_of (data (snd (insert_loop (zip [column ..< column + length ls] ls) m)))
           = take column (labels_of (data m)) @ ls @ drop column (labels_of (data m)) \<and>
         new_col_num (snd (insert_loop (zip [column ..< column + length ls] ls) m))
           = new_col_num m"
  using assms
proof (induction ls arbitrary: column m)
  case Nil
  then show ?case by simp
next
  case (Cons l ls)
  let ?L = "labels_of (data m)"
  have z: "zip [column ..< column + length (l # ls)] (l # ls)
             = (column, l) # zip [Suc column ..< Suc column + length ls] ls"
    by (subst upt_rec) (simp del: upt_Suc)
  have fresh: "l \<notin> set ?L" using Cons.prems(3) by auto
  obtain df where df: "frame_insert (data m) column l NaN = Ok df"
    using fresh Cons.prems(1) by (simp add: frame_insert_def labels_of_def)
  have L': "labels_of df = take column ?L @ l # drop column ?L"
    using frame_insert_labels(2) [OF df] .
  let ?m' = "m\<lparr>data := df, col_names := (col_names m)(l \<mapsto> l)\<rparr>"
  have 1: "Suc column \<le> length (labels_of (data ?m'))"
    using Cons.prems(1) by (simp add: L')
  have 2: "distinct ls" using Cons.prems(2) by simp
  have "set (labels_of df) = insert l (set (take column ?L @ drop column ?L))"
    unfolding L' by (simp only: set_append list.set) auto
  then have "set (labels_of df) = insert l (set ?L)" by simp
  then have 3: "set ls \<inter> set (labels_of (data ?m')) = {}"
    using Cons.prems(2,3) by auto
  have tk: "take (Suc column) (labels_of df) = take column ?L @ [l]"
    and dr: "drop (Suc column) (labels_of df) = drop column ?L"
    using Cons.prems(1) unfolding L' by (simp_all add: min_def)
  from Cons.IH [OF 1 2 3] show ?case
    unfolding z by (simp add: df tk dr)
qed

lemma insert_columns_exact:
  assumes "labels_ok m" and "column \<le> num_columns m"
  shows "fst (insert_columns m column count)
           = Ok (map col_label [Suc (new_col_num m) ..< Suc (new_col_num m) + count]) \<and>
         labels_of (data (snd (insert_columns m column count)))
           = take column (labels_of (data m))
             @ map col_label [Suc (new_col_num m) ..< Suc (new_col_num m) + count]
             @ drop column (labels_of (data m)) \<and>
         new_col_num (snd (insert_columns m column count)) = new_col_num m + count"
proof -
  let ?ls = "map col_label [Suc (new_col_num m) ..< Suc (new_col_num m) + count]"
  let ?m1 = "m\<lparr>new_col_num := new_col_num m + count\<rparr>"
  have len: "length ?ls = count" by simp
  have 1: "column \<le> length (labels_of (data ?m1))"
    using assms(2) by (simp add: num_columns_def labels_of_def)
  have "inj_on col_label (set [Suc (new_col_num m) ..< Suc (new_col_num m) + count])"
    using col_label_inj by (rule inj_on_subset) simp
  then have 2: "distinct ?ls" by (simp only: distinct_map distinct_upt simp_thms)
  have 3: "set ?ls \<inter> set (labels_of (data ?m1)) = {}"
  proof -
    have "set (labels_of (data m)) \<subseteq> col_label ` {1 .. new_col_num m}"
      using assms(1) by (simp add: labels_ok_def)
    moreover have "set ?ls = col_label ` {Suc (new_col_num m) ..< Suc (new_col_num m) + count}"
      by (simp only: set_map set_upt)
    moreover have "col_label ` {Suc (new_col_num m) ..< Suc (new_col_num m) + count}
                     \<inter> col_label ` {1 .. new_col_num m} = {}"
      using col_label_inj by (auto simp: inj_eq)
    ultimately show ?thesis by auto
  qed
  obtain r m2 where r: "insert_loop (zip [column ..< column + count] ?ls) ?m1 = (r, m2)"
    by (cases "insert_loop (zip [column ..< column + count] ?ls) ?m1")
  from insert_loop_exact [OF 1 2 3]
  have "r = Ok ()"
    and "labels_of (data m2)
           = take column (labels_of (data m)) @ ?ls @ drop column (labels_of (data m))"
    and "new_col_num m2 = new_col_num m + count"
    unfolding len r by simp_all
  moreover have "insert_columns m column count
                   = (case r of Raise e \<Rightarrow> (Raise e, m2) | Ok u \<Rightarrow> (Ok ?ls, m2))"
    unfolding insert_columns_def create_labels_eq by (simp only: prod.case r)
  ultimately show ?thesis by simp
qed

text \<open>
  C8. Let any sequence of calls \<open>xs\<close> be made on a new \<open>DataModel\<close>, each call returning
  or raising. Then:
  \<^item> the labels of the table are pairwise distinct, and each is \<open>col<N>\<close> for a value
    \<open>N\<close> from 1 to the counter; different values give different labels;
  \<^item> over any further calls \<open>ys\<close> the counter does not decrease, and every label the
    table has gained is \<open>col<N>\<close> for a value \<open>N\<close> the counter has passed in between;
  \<^item> a label that the table had and, after \<open>ys\<close>, has no more is not a label of the
    table after any further calls \<open>zs\<close>: the label of a removed column is not given
    to a column again;
  \<^item> \<open>insert_columns(column, count)\<close> with \<open>column\<close> in range returns the labels of
    the next \<open>count\<close> counter values, puts columns of exactly these labels at
    \<open>column\<close>, and advances the counter by \<open>count\<close>.
\<close>

theorem labels_unique_never_reused:
  "distinct (labels_of (data (run xs init))) \<and>
   set (labels_of (data (run xs init))) \<subseteq> col_label ` {1 .. new_col_num (run xs init)} \<and>
   inj col_label \<and>
   new_col_num (run xs init) \<le> new_col_num (run ys (run xs init)) \<and>
   set (labels_of (data (run ys (run xs init)))) - set (labels_of (data (run xs init)))
     \<subseteq> col_label ` {new_col_num (run xs init) <.. new_col_num (run ys (run xs init))} \<and>
   (l \<in> set (labels_of (data (run xs init))) \<longrightarrow>
    l \<notin> set (labels_of (data (run ys (run xs init)))) \<longrightarrow>
    l \<notin> set (labels_of (data (run zs (run ys (run xs init)))))) \<and>
   (column \<le> num_columns (run xs init) \<longrightarrow>
    fst (insert_columns (run xs init) column count)
      = Ok (map col_label [Suc (new_col_num (run xs init))
                           ..< Suc (new_col_num (run xs init)) + count]) \<and>
    labels_of (data (snd (insert_columns (run xs init) column count)))
      = take column (labels_of (data (run xs init)))
        @ map col_label [Suc (new_col_num (run xs init))
                         ..< Suc (new_col_num (run xs init)) + count]
        @ drop column (labels_of (data (run xs init))) \<and>
    new_col_num (snd (insert_columns (run xs init) column count))
      = new_col_num (run xs init) + count)"
proof -
  let ?m = "run xs init"
  have ok: "labels_ok ?m" using run_labels_ok [OF labels_ok_init, of xs] by simp
  have a: "distinct (labels_of (data ?m))"
    and b: "set (labels_of (data ?m)) \<subseteq> col_label ` {1 .. new_col_num ?m}"
    using ok by (simp_all add: labels_ok_def)
  have c: "new_col_num ?m \<le> new_col_num (run ys ?m)"
    and d: "set (labels_of (data (run ys ?m))) - set (labels_of (data ?m))
              \<subseteq> col_label ` {new_col_num ?m <.. new_col_num (run ys ?m)}"
    using run_labels_ok [OF ok, of ys] by blast+
  have e: "l \<in> set (labels_of (data ?m)) \<longrightarrow> l \<notin> set (labels_of (data (run ys ?m))) \<longrightarrow>
           l \<notin> set (labels_of (data (run zs (run ys ?m))))"
    using label_never_returns [OF ok] by blast
  have f: "column \<le> num_columns ?m \<longrightarrow>
    fst (insert_columns ?m column count)
      = Ok (map col_label [Suc (new_col_num ?m) ..< Suc (new_col_num ?m) + count]) \<and>
    labels_of (data (snd (insert_columns ?m column count)))
      = take column (labels_of (data ?m))
        @ map col_label [Suc (new_col_num ?m) ..< Suc (new_col_num ?m) + count]
        @ drop column (labels_of (data ?m)) \<and>
    new_col_num (snd (insert_columns ?m column count)) = new_col_num ?m + count"
    using insert_columns_exact [OF ok, of column count] by (rule impI)
  from a b col_label_inj c d e f show ?thesis
    by (intro conjI)
qed

text \<open>
  One column inserted, removed, and one column inserted again: the new column is col2,
  not col1. Two columns inserted in front of col1 are col2 and col3.
\<close>

theorem labels_unique_never_reused_witness:
  "labels_of (data (run [Insert_columns 0 1] init)) = [''col1''] \<and>
   labels_of (data (run [Remove_columns 0 1] (run [Insert_columns 0 1] init))) = [] \<and>
   labels_of (data (run [Insert_columns 0 1]
                      (run [Remove_columns 0 1] (run [Insert_columns 0 1] init)))) = [''col2''] \<and>
   0 \<le> num_columns (run [Insert_columns 0 1] init) \<and>
   fst (insert_columns (run [Insert_columns 0 1] init) 0 2) = Ok [''col2'', ''col3''] \<and>
   labels_of (data (snd (insert_columns (run [Insert_columns 0 1] init) 0 2)))
     = [''col2'', ''col3'', ''col1''] \<and>
   ''col1'' \<notin> set (labels_of (data (run [Insert_columns 0 1]
                      (run [Remove_columns 0 1] (run [Insert_columns 0 1] init)))))"
proof -
  have ev: "labels_of (data (run [Insert_columns 0 1] init)) = [''col1'']"
    "labels_of (data (run [Remove_columns 0 1] (run [Insert_columns 0 1] init))) = []"
    "labels_of (data (run [Insert_columns 0 1]
                      (run [Remove_columns 0 1] (run [Insert_columns 0 1] init)))) = [''col2'']"
    "fst (insert_columns (run [Insert_columns 0 1] init) 0 2) = Ok [''col2'', ''col3'']"
    "labels_of (data (snd (insert_columns (run [Insert_columns 0 1] init) 0 2)))
       = [''col2'', ''col3'', ''col1'']"
    by code_simp+
  note never = labels_unique_never_reused
      [of "[Insert_columns 0 1]" "[Remove_columns 0 1]" "''col1''" "[Insert_columns 0 1]",
       THEN conjunct2, THEN conjunct2, THEN conjunct2, THEN conjunct2, THEN conjunct2,
       THEN conjunct1, THEN mp, THEN mp]
  have "''col1'' \<in> set (labels_of (data (run [Insert_columns 0 1] init)))"
    and "''col1'' \<notin> set (labels_of (data (run [Remove_columns 0 1]
                                                (run [Insert_columns 0 1] init))))"
    by (simp_all only: ev) simp_all
  then have "''col1'' \<notin> set (labels_of (data (run [Insert_columns 0 1]
                      (run [Remove_columns 0 1] (run [Insert_columns 0 1] init)))))"
    by (rule never)
  then show ?thesis using ev by (simp only: simp_thms le0)
qed

end
